theory Spec2Isabelle
  imports Main "HOL-Library.Word"
begin

chapter \<open>A shallow embedding of the depeche node-to-node protocol engine\<close>

text \<open>
  The theory follows the Python sources of the repository:
  \<^item> \<open>communication/adapter/localnet/bytebundle.py\<close>: the framed segment codec;
  \<^item> \<open>communication/adapter/localnet/naive.py\<close>: announcements, the listeners, the
    port search of the rendezvous server and the message exchange loop;
  \<^item> \<open>communication/protocol/structures.py\<close>: the wire messages;
  \<^item> \<open>messages/sqlite_storage.py\<close>: the address and key store.

  Python exceptions are values of the type \<open>error\<close>; a function that can raise returns
  \<open>error + 'a\<close> with \<open>Inl\<close> for the exception. Mutable state (a socket, the database,
  a listener thread) is passed explicitly and returned updated.
\<close>

section \<open>Exceptions\<close>

text \<open>
  One constructor per exception class the modelled code raises or handles. The three
  \<open>RuntimeError\<close>s of \<open>bytebundle.read\<close> are told apart by their message:
  \<open>ProtocolMismatch\<close> is "Protocol does not match data received", \<open>UnsupportedVersion\<close>
  is "Protocol version not supported" and \<open>ConnectionBroken\<close> is "socket connection broken".
  \<open>SocketTimeout\<close> is \<open>socket.timeout\<close>, \<open>IntegrityError\<close> is \<open>sqlite3.IntegrityError\<close>,
  \<open>OSError\<close> is what a failed bind raises.
\<close>

datatype error =
    SocketTimeout
  | ProtocolMismatch
  | UnsupportedVersion
  | ConnectionBroken
  | ValueError
  | KeyError
  | TypeError
  | UnboundLocalError
  | NameError
  | OSError
  | AttributeError
  | ConnectionRefusedError
  | IntegrityError

section \<open>The segment codec (bytebundle.py)\<close>

subsection \<open>Sockets\<close>

text \<open>
  A byte is an 8-bit word. The receiving end of a connected stream socket is the list of
  what will arrive on it, in order: \<open>Bytes c\<close> is a run of bytes that is available to one
  \<open>recv\<close> call together, \<open>TimedOut\<close> is a pause longer than the socket's timeout. After the
  last arrival the peer has closed the connection. \<open>recv n\<close> returns at most \<open>n\<close> bytes of
  the first run and leaves the rest of it in the socket; on a closed connection it returns
  the empty byte string, as Python's \<open>socket.recv\<close> does; at a pause it raises
  \<open>socket.timeout\<close>. An in-memory pipe that already holds everything the peer sent is a
  single run.
\<close>

type_synonym byte = "8 word"

datatype arrival = Bytes "byte list" | TimedOut

type_synonym sock = "arrival list"

fun recv :: "nat \<Rightarrow> sock \<Rightarrow> error + (byte list \<times> sock)" where
  "recv n [] = Inr ([], [])"
| "recv n (TimedOut # s) = Inl SocketTimeout"
| "recv n (Bytes c # s) =
     (if c = [] then recv n s
      else Inr (take n c, if length c \<le> n then s else Bytes (drop n c) # s))"

text \<open>The number of bytes still to arrive on a socket.\<close>

fun pending :: "sock \<Rightarrow> nat" where
  "pending [] = 0"
| "pending (TimedOut # s) = pending s"
| "pending (Bytes c # s) = length c + pending s"

subsection \<open>The segment header\<close>

text \<open>
  \<open>_MessageHeader\<close> is a packed big-endian \<open>ctypes\<close> structure: a 32-bit protocol
  identifier, an 8-bit version, a 32-bit payload size and an 8-bit last-segment flag, ten
  bytes in all. A \<open>c_uint32\<close> field keeps its argument modulo \<open>2 ^ 32\<close>, which is what
  \<open>of_nat\<close> into \<open>32 word\<close> does.
\<close>

record MessageHeader =
  proto_identifier :: "32 word"
  version_number :: "8 word"
  message_size :: "32 word"
  last_segment :: "8 word"

definition be32 :: "32 word \<Rightarrow> byte list" where
  "be32 w = [ucast (drop_bit 24 w), ucast (drop_bit 16 w), ucast (drop_bit 8 w), ucast w]"

definition header_bytes :: "MessageHeader \<Rightarrow> byte list" where
  "header_bytes h =
     be32 (proto_identifier h) @ [version_number h] @ be32 (message_size h) @ [last_segment h]"

text \<open>\<open>int.from_bytes(bs, byteorder='big', signed=False)\<close>; the empty string gives 0.\<close>

definition from_bytes :: "byte list \<Rightarrow> nat" where
  "from_bytes bs = foldl (\<lambda>acc b. acc * 256 + unat b) 0 bs"

text \<open>The protocol identifier \<open>b'\\xde\\x0e\\xc0\\xe1'\<close> that \<open>read\<close> compares with.\<close>

definition magic :: "byte list" where
  "magic = [0xde, 0x0e, 0xc0, 0xe1]"

text \<open>
  A segment as the module's docstring lays it out: the header with the given last-segment
  flag byte, then the payload.
\<close>

definition segment :: "byte list \<Rightarrow> byte \<Rightarrow> byte list" where
  "segment payload flag =
     header_bytes \<lparr>proto_identifier = 0xde0ec0e1, version_number = 0,
                   message_size = of_nat (length payload), last_segment = flag\<rparr>
     @ payload"

subsection \<open>send\<close>

text \<open>
  \<open>send(bytes_to_send, sock)\<close> builds \<open>_MessageHeader(0xde0ec0e1, 0, len(bytes_to_send), True)\<close>
  and hands header and payload to one \<open>sendall\<close>: the peer's socket gets one more run.
  \<open>True\<close> is stored in the \<open>c_uint8\<close> flag as 1.
\<close>

definition send :: "byte list \<Rightarrow> sock \<Rightarrow> sock" where
  "send bytes_to_send s =
     s @ [Bytes (header_bytes \<lparr>proto_identifier = 0xde0ec0e1, version_number = 0,
                   message_size = of_nat (length bytes_to_send), last_segment = 1\<rparr>
                 @ bytes_to_send)]"

subsection \<open>read\<close>

text \<open>
  The inner loop of \<open>read\<close>:
  \<^verbatim>\<open>
    while remaining_bytes > 0:
        part = sock.recv(min(remaining_bytes, 2048))
        remaining_bytes = remaining_bytes - len(part)
        if part == b'' and remaining_bytes > 0:
            raise RuntimeError("socket connection broken")
        parts.append(part)
  \<close>
  \<open>recv\<close> never returns more than it was asked for, so the subtraction does not go below 0.
\<close>

function recv_payload ::
    "nat \<Rightarrow> byte list list \<Rightarrow> sock \<Rightarrow> error + (byte list list \<times> sock)" where
  "recv_payload remaining_bytes parts s =
     (if remaining_bytes > 0 then
        (case recv (min remaining_bytes 2048) s of
           Inl e \<Rightarrow> Inl e
         | Inr (part, s') \<Rightarrow>
             (let remaining_bytes' = remaining_bytes - length part in
              if part = [] \<and> remaining_bytes' > 0 then Inl ConnectionBroken
              else recv_payload remaining_bytes' (parts @ [part]) s'))
      else Inr (parts, s))"
  by pat_completeness auto
termination
  by (relation "measure (\<lambda>(r, p, s). r)") auto

text \<open>
  \<open>read(sock, previous_data=b'')\<close>. The slices \<open>data[:4]\<close>, \<open>data[4:5]\<close>, \<open>data[5:9]\<close> and
  \<open>data[9:]\<close> are \<open>take\<close> and \<open>drop\<close>; \<open>is_last = bool(data[9:])\<close> is the truth value of a
  byte string, which is true exactly when the string is not empty. The result is the
  returned buffer together with the socket as the call leaves it.
\<close>

function read :: "sock \<Rightarrow> byte list \<Rightarrow> error + (byte list \<times> sock)" where
  "read s previous_data =
     (case recv 10 s of
        Inl e \<Rightarrow> Inl e
      | Inr (data, s1) \<Rightarrow>
          (if take 4 data \<noteq> magic then Inl ProtocolMismatch
           else if from_bytes (take 1 (drop 4 data)) \<noteq> 0 then Inl UnsupportedVersion
           else
             (let length' = from_bytes (take 4 (drop 5 data));
                  is_last = (drop 9 data \<noteq> [])
              in if length' > 0 then
                   (case recv_payload length' [] s1 of
                      Inl e \<Rightarrow> Inl e
                    | Inr (parts, s2) \<Rightarrow>
                        (let received_data = previous_data @ concat parts
                         in if is_last then Inr (received_data, s2)
                            else read s2 received_data))
                 else Inr ([], s1))))"
  by pat_completeness auto
termination
proof (relation "measure (\<lambda>(s, p). pending s)")
  show "wf (measure (\<lambda>(s, p). pending s))" by simp
next
  fix s :: sock and previous_data :: "byte list" and x2 data s1 x xa x2a parts s2 xb
  have recv_pending: "\<And>n t d t'. recv n t = Inr (d, t') \<Longrightarrow> pending t' + length d = pending t"
  proof -
    fix n t d t'
    show "recv n t = Inr (d, t') \<Longrightarrow> pending t' + length d = pending t"
      by (induction n t rule: recv.induct) (auto split: if_splits)
  qed
  have payload_pending:
    "\<And>r ps t qs t'. recv_payload r ps t = Inr (qs, t') \<Longrightarrow> pending t' \<le> pending t"
  proof -
    fix r ps t qs t'
    show "recv_payload r ps t = Inr (qs, t') \<Longrightarrow> pending t' \<le> pending t"
    proof (induction r ps t rule: recv_payload.induct)
      case (1 r ps t)
      show ?case
      proof (cases "r > 0")
        case False
        with 1 show ?thesis by simp
      next
        case True
        from 1(2) True obtain part t1 where rv: "recv (min r 2048) t = Inr (part, t1)"
          by (auto split: sum.splits)
        from 1(2) True rv have nb: "\<not> (part = [] \<and> r - length part > 0)"
          by (auto split: if_splits)
        from 1(2) True rv nb
        have rec: "recv_payload (r - length part) (ps @ [part]) t1 = Inr (qs, t')"
          by (simp split: if_splits)
        have "pending t' \<le> pending t1"
          using 1(1) [OF True rv refl refl nb rec] .
        moreover have "pending t1 \<le> pending t"
          using recv_pending [OF rv] by auto
        ultimately show ?thesis by simp
      qed
    qed
  qed
  assume a: "recv 10 s = Inr x2" "(data, s1) = x2" "\<not> take 4 data \<noteq> magic"
    and b: "recv_payload x [] s1 = Inr x2a" "(parts, s2) = x2a" "\<not> xa"
    and c: "xa = (drop 9 data \<noteq> [])"
  from a have r: "recv 10 s = Inr (data, s1)" by simp
  from a have "length (take 4 data) = 4" by (simp add: magic_def)
  then have "length data \<ge> 4" by simp
  moreover from b c have "length data \<le> 9" by simp
  ultimately have "pending s1 < pending s" using recv_pending [OF r] by auto
  moreover from b have "pending s2 \<le> pending s1"
    using payload_pending [of x "[]" s1 parts s2] by simp
  ultimately show "((s2, xb), s, previous_data) \<in> measure (\<lambda>(s, p). pending s)"
    by simp
qed

section \<open>The address and key store (sqlite\_storage.py)\<close>

subsection \<open>Tables\<close>

text \<open>
  A table is the list of its rows in scan order, a row is a record of its columns, and a
  column that may hold \<open>NULL\<close> is an \<open>option\<close>. Only the tables the modelled operations
  touch are kept: \<open>nacl_key\<close>, \<open>own_address\<close>, \<open>foreign_address\<close> and \<open>message\<close>. Both
  address tables declare \<open>FOREIGN KEY(key_id) REFERENCES nacl_key(id)\<close>, and every
  connection is opened with \<open>PRAGMA foreign_keys = ON\<close>. Timestamps are kept as text.
\<close>

record nacl_key_row =
  k_id :: string
  is_own :: bool
  private_key :: "string option"
  public_key :: "string option"

record own_address_row =
  oa_id :: string
  given_to :: "string option"
  oa_key_id :: "string option"
  oa_is_used :: bool

record foreign_address_row =
  fa_id :: string
  contact_id :: "string option"
  fa_key_id :: "string option"
  fa_is_used :: bool

record message_row =
  m_id :: string
  meta_received_at :: string
  meta_last_seen_at :: string
  meta_forward_count :: int
  header_address :: "string option"
  header_sent_at :: string
  body_contents :: string

record store =
  nacl_key :: "nacl_key_row list"
  own_address :: "own_address_row list"
  foreign_address :: "foreign_address_row list"
  message :: "message_row list"

subsection \<open>Operations\<close>

text \<open>
  \<open>read_message\<close>: \<open>SELECT * FROM message WHERE id = ? LIMIT 1\<close>; the result is \<open>None\<close>
  when no row matches.
\<close>

definition read_message :: "store \<Rightarrow> string \<Rightarrow> message_row option" where
  "read_message st message_id =
     (case filter (\<lambda>m. m_id m = message_id) (message st) of
        [] \<Rightarrow> None
      | m # _ \<Rightarrow> Some m)"

text \<open>
  \<open>get_own_address_nacl_key\<close>: the join of \<open>nacl_key\<close> and \<open>own_address\<close> on
  \<open>nacl_key.id = own_address.key_id\<close>, restricted to \<open>is_own = 1\<close> and the given address.
  The Python loop keeps the last row of the cursor; \<open>row["id"]\<close> is the first column of
  that name, the key's. With no row the result is \<open>(None, None)\<close>.
\<close>

definition own_address_key_rows ::
    "store \<Rightarrow> string option \<Rightarrow> (nacl_key_row \<times> own_address_row) list" where
  "own_address_key_rows st address_id =
     [(k, a). k \<leftarrow> nacl_key st, a \<leftarrow> own_address st,
              oa_key_id a = Some (k_id k) \<and> is_own k \<and> Some (oa_id a) = address_id]"

definition get_own_address_nacl_key ::
    "store \<Rightarrow> string option \<Rightarrow> string option \<times> string option" where
  "get_own_address_nacl_key st address_id =
     (case own_address_key_rows st address_id of
        [] \<Rightarrow> (None, None)
      | r # rs \<Rightarrow> (Some (k_id (fst (last (r # rs)))), private_key (fst (last (r # rs)))))"

text \<open>\<open>remove_own_address\<close>: \<open>DELETE FROM own_address WHERE id = ?\<close>.\<close>

definition remove_own_address :: "store \<Rightarrow> string option \<Rightarrow> store" where
  "remove_own_address st address =
     st\<lparr>own_address := filter (\<lambda>a. Some (oa_id a) \<noteq> address) (own_address st)\<rparr>"

text \<open>
  \<open>remove_own_nacl_key\<close>: \<open>DELETE FROM nacl_key WHERE id = ? AND is_own = 1\<close>. With foreign
  keys enforced, deleting a key row that a row of \<open>own_address\<close> or of \<open>foreign_address\<close>
  still references fails with \<open>sqlite3.IntegrityError\<close> and changes nothing.
\<close>

definition key_referenced :: "store \<Rightarrow> string \<Rightarrow> bool" where
  "key_referenced st key_id =
     (list_ex (\<lambda>a. oa_key_id a = Some key_id) (own_address st) \<or>
      list_ex (\<lambda>a. fa_key_id a = Some key_id) (foreign_address st))"

definition remove_own_nacl_key :: "store \<Rightarrow> string \<Rightarrow> error + store" where
  "remove_own_nacl_key st key_id =
     (if list_ex (\<lambda>k. k_id k = key_id \<and> is_own k) (nacl_key st) \<and> key_referenced st key_id
      then Inl IntegrityError
      else Inr (st\<lparr>nacl_key := filter (\<lambda>k. \<not> (k_id k = key_id \<and> is_own k)) (nacl_key st)\<rparr>))"

text \<open>
  \<open>clean_out_received_message\<close>. For an id that is not stored \<open>read_message\<close> returns
  \<open>None\<close> and \<open>msg.header_address\<close> raises \<open>AttributeError\<close>. The \<open>IntegrityError\<close> of the key
  removal is caught and dropped; any other exception propagates.
\<close>

definition clean_out_received_message :: "store \<Rightarrow> string \<Rightarrow> error + store" where
  "clean_out_received_message st message_id =
     (case read_message st message_id of
        None \<Rightarrow> Inl AttributeError
      | Some msg \<Rightarrow>
          (case fst (get_own_address_nacl_key st (header_address msg)) of
             None \<Rightarrow> Inr st
           | Some key_id \<Rightarrow>
               (let st1 = remove_own_address st (header_address msg) in
                case remove_own_nacl_key st1 key_id of
                  Inl e \<Rightarrow> (if e = IntegrityError then Inr st1 else Inl e)
                | Inr st2 \<Rightarrow> Inr st2)))"

text \<open>
  \<open>get_least_used_own_nacl_key\<close> runs
  \<^verbatim>\<open>
    SELECT nacl_key.id AS id, nacl_key.public_key AS public_key,
           COUNT(own_address.id) AS usage
    FROM nacl_key LEFT JOIN own_address ON nacl_key.id = own_address.key_id
    WHERE nacl_key.is_own = 1 ORDER BY usage ASC LIMIT 1
  \<close>
  The left join pairs every own key with each address that references it, or with
  \<open>NULL\<close>s when none does. The query has an aggregate and no \<open>GROUP BY\<close>, so all joined
  rows form one group and the cursor yields exactly one row: \<open>usage\<close> counts the joined
  rows whose address is not \<open>NULL\<close>, and the bare columns \<open>id\<close> and \<open>public_key\<close> come from
  one row of the group, which SQLite takes to be the first in scan order (\<open>NULL\<close> for an
  empty group). \<open>ORDER BY\<close> and \<open>LIMIT\<close> then see that single row. The Python loop returns
  the last row of the cursor as the pair \<open>(id, public_key)\<close>.
\<close>

definition own_key_join :: "store \<Rightarrow> (nacl_key_row \<times> own_address_row option) list" where
  "own_key_join st =
     concat (map (\<lambda>k.
        (case filter (\<lambda>a. oa_key_id a = Some (k_id k)) (own_address st) of
           [] \<Rightarrow> [(k, None)]
         | a # as \<Rightarrow> map (\<lambda>a'. (k, Some a')) (a # as)))
       (filter is_own (nacl_key st)))"

definition least_used_cursor :: "store \<Rightarrow> (string option \<times> string option \<times> nat) list" where
  "least_used_cursor st =
     (let rows = own_key_join st;
          usage = length (filter (\<lambda>r. snd r \<noteq> None) rows)
      in case rows of
           [] \<Rightarrow> [(None, None, usage)]
         | r # _ \<Rightarrow> [(Some (k_id (fst r)), public_key (fst r), usage)])"

definition get_least_used_own_nacl_key ::
    "store \<Rightarrow> (string option \<times> string option) option" where
  "get_least_used_own_nacl_key st =
     (case least_used_cursor st of
        [] \<Rightarrow> None
      | r # rs \<Rightarrow> Some (fst (last (r # rs)), fst (snd (last (r # rs)))))"

text \<open>The number of own-address records that reference a key.\<close>

definition key_usage :: "store \<Rightarrow> string \<Rightarrow> nat" where
  "key_usage st key_id = length (filter (\<lambda>a. oa_key_id a = Some key_id) (own_address st))"

subsection \<open>Store states used below\<close>

text \<open>
  The state that \<open>test_message_clean_out\<close> builds (scenario S6 of the specification): one own
  key, two own addresses bound to it and a stored message for each address.
\<close>

definition store_s6 :: store where
  "store_s6 =
     \<lparr>nacl_key = [\<lparr>k_id = ''key-1'', is_own = True, private_key = Some ''a-private-key'',
                    public_key = Some ''a-public-key''\<rparr>],
      own_address =
        [\<lparr>oa_id = ''address-no-1'', given_to = Some ''contact-1'', oa_key_id = Some ''key-1'',
          oa_is_used = False\<rparr>,
         \<lparr>oa_id = ''address-no-2'', given_to = Some ''contact-1'', oa_key_id = Some ''key-1'',
          oa_is_used = False\<rparr>],
      foreign_address = [],
      message =
        [\<lparr>m_id = ''msg-1'', meta_received_at = ''t0'', meta_last_seen_at = ''t0'',
          meta_forward_count = 0, header_address = Some ''address-no-1'',
          header_sent_at = ''t0'', body_contents = ''SOMETOTALLYNOTENCRYPTEDDATA''\<rparr>,
         \<lparr>m_id = ''msg-2'', meta_received_at = ''t0'', meta_last_seen_at = ''t0'',
          meta_forward_count = 0, header_address = Some ''address-no-2'',
          header_sent_at = ''t0'', body_contents = ''ANOTHERTOTALLYNOTENCRYPTEDDATA''\<rparr>]\<rparr>"

text \<open>
  A state reached by \<open>store_own_nacl_key\<close>, \<open>store_own_address\<close>, \<open>store_contact_address\<close>
  with the own key's id, and \<open>store_message\<close>: the own key backs one own address and one
  contact address.
\<close>

definition store_shared_key :: store where
  "store_shared_key =
     \<lparr>nacl_key = [\<lparr>k_id = ''key-1'', is_own = True, private_key = Some ''a-private-key'',
                    public_key = Some ''a-public-key''\<rparr>],
      own_address =
        [\<lparr>oa_id = ''address-no-1'', given_to = Some ''contact-1'', oa_key_id = Some ''key-1'',
          oa_is_used = False\<rparr>],
      foreign_address =
        [\<lparr>fa_id = ''their-address'', contact_id = Some ''contact-1'', fa_key_id = Some ''key-1'',
          fa_is_used = False\<rparr>],
      message =
        [\<lparr>m_id = ''msg-1'', meta_received_at = ''t0'', meta_last_seen_at = ''t0'',
          meta_forward_count = 0, header_address = Some ''address-no-1'',
          header_sent_at = ''t0'', body_contents = ''SOMETOTALLYNOTENCRYPTEDDATA''\<rparr>]\<rparr>"

text \<open>
  A state reached by two calls of \<open>store_own_nacl_key\<close> and two of \<open>store_own_address\<close>:
  the first own key backs two addresses, the second none.
\<close>

definition store_two_keys :: store where
  "store_two_keys =
     \<lparr>nacl_key =
        [\<lparr>k_id = ''key-1'', is_own = True, private_key = Some ''private-1'',
          public_key = Some ''public-1''\<rparr>,
         \<lparr>k_id = ''key-2'', is_own = True, private_key = Some ''private-2'',
          public_key = Some ''public-2''\<rparr>],
      own_address =
        [\<lparr>oa_id = ''address-no-1'', given_to = Some ''contact-1'', oa_key_id = Some ''key-1'',
          oa_is_used = False\<rparr>,
         \<lparr>oa_id = ''address-no-2'', given_to = Some ''contact-1'', oa_key_id = Some ''key-1'',
          oa_is_used = False\<rparr>],
      foreign_address = [],
      message = []\<rparr>"

section \<open>Server start-up: the port search (naive.py)\<close>

text \<open>
  Whether \<open>TCPServer((host, port), handler)\<close> succeeds depends on the machine; the search
  takes it as the predicate \<open>can_bind\<close> on port numbers. Both searches also return the list
  of the ports they tried, in order, as an observation.

  \<open>_RendezvousServer.run\<close>:
  \<^verbatim>\<open>
    success = False; tries = 0; server = None
    while not success and tries < 10:
        self.port = self.port + tries
        try:
            server = TCPServer((socket.gethostname(), self.port), self._RendezvousHandler)
            success = True
        except:
            tries = tries + 1
    if not success:
        ... self.queue.put("FAIL") ...
  \<close>
  The function below is the loop with \<open>success\<close> still false; it returns the final
  \<open>self.port\<close>, \<open>success\<close> and the ports tried.
\<close>

function rendezvous_port_search ::
    "(int \<Rightarrow> bool) \<Rightarrow> int \<Rightarrow> nat \<Rightarrow> int list \<Rightarrow> int \<times> bool \<times> int list" where
  "rendezvous_port_search can_bind port tries tried =
     (if tries < 10 then
        (let port' = port + int tries in
         if can_bind port' then (port', True, tried @ [port'])
         else rendezvous_port_search can_bind port' (tries + 1) (tried @ [port']))
      else (port, False, tried))"
  by pat_completeness auto
termination
  by (relation "measure (\<lambda>(c, p, t, l). 10 - t)") auto

definition rendezvous_server_start :: "(int \<Rightarrow> bool) \<Rightarrow> int \<Rightarrow> int \<times> bool \<times> int list" where
  "rendezvous_server_start can_bind port = rendezvous_port_search can_bind port 0 []"

text \<open>
  \<open>_create_socket_server(handler, base_port, max_port_offset=10)\<close>, which the message
  exchange server uses, computes each candidate from the base port:
  \<^verbatim>\<open>
    tries = 0
    while tries < max_port_offset:
        port = base_port + tries
        try:
            server = TCPServer((socket.gethostname(), port), handler)
            return server
        except:
            tries = tries + 1
            if tries >= max_port_offset:
                raise
    raise AppError("Reached faulty state when trying to start socket server")
  \<close>
  \<open>AppError\<close> is not defined in the module, so the last line raises \<open>NameError\<close>.
\<close>

function create_socket_server_loop ::
    "(int \<Rightarrow> bool) \<Rightarrow> int \<Rightarrow> nat \<Rightarrow> nat \<Rightarrow> int list \<Rightarrow> (error + int) \<times> int list" where
  "create_socket_server_loop can_bind base_port max_port_offset tries tried =
     (if tries < max_port_offset then
        (let port = base_port + int tries in
         if can_bind port then (Inr port, tried @ [port])
         else if tries + 1 \<ge> max_port_offset then (Inl OSError, tried @ [port])
         else create_socket_server_loop can_bind base_port max_port_offset (tries + 1)
                (tried @ [port]))
      else (Inl NameError, tried))"
  by pat_completeness auto
termination
  by (relation "measure (\<lambda>(c, b, m, t, l). m - t)") auto

definition create_socket_server :: "(int \<Rightarrow> bool) \<Rightarrow> int \<Rightarrow> nat \<Rightarrow> (error + int) \<times> int list" where
  "create_socket_server can_bind base_port max_port_offset =
     create_socket_server_loop can_bind base_port max_port_offset 0 []"

definition DEFAULT_TCP_RENDEZVOUS_SERVER_PORT :: int where
  "DEFAULT_TCP_RENDEZVOUS_SERVER_PORT = 27273"

chapter \<open>Properties\<close>

section \<open>Properties of the segment codec\<close>

declare recv_payload.simps [simp del] read.simps [simp del]

lemma base256_digits:
  fixes n :: nat
  assumes "n < 4294967296"
  shows "((n div 16777216 mod 256 * 256 + n div 65536 mod 256) * 256
            + n div 256 mod 256) * 256 + n mod 256 = n"
proof -
  define q1 where "q1 = n div 256"
  define q2 where "q2 = q1 div 256"
  define q3 where "q3 = q2 div 256"
  have e1: "q1 * 256 + n mod 256 = n" unfolding q1_def by (rule div_mult_mod_eq)
  have e2: "q2 * 256 + q1 mod 256 = q1" unfolding q2_def by (rule div_mult_mod_eq)
  have e3: "q3 * 256 + q2 mod 256 = q2" unfolding q3_def by (rule div_mult_mod_eq)
  have d2: "n div 65536 = q2" unfolding q2_def q1_def by (simp add: div_mult2_eq)
  have d3: "n div 16777216 = q3" unfolding q3_def q2_def q1_def by (simp add: div_mult2_eq)
  have "q3 < 256" using assms unfolding d3 [symmetric] by (simp add: less_mult_imp_div_less)
  then have m3: "q3 mod 256 = q3" by simp
  have "((q3 * 256 + q2 mod 256) * 256 + q1 mod 256) * 256 + n mod 256 = n"
    by (simp only: e3 e2 e1)
  then show ?thesis
    by (simp only: d2 d3 m3 q1_def [symmetric])
qed

lemma from_bytes_be32: "from_bytes (be32 w) = unat w"
proof -
  have lt: "unat w < 4294967296" using unsigned_less [of w, where ?'a = nat] by simp
  have a: "unat (ucast (drop_bit 24 w) :: byte) = unat w div 16777216 mod 256"
    by (simp add: unsigned_ucast_eq take_bit_eq_mod unat_drop_bit_eq drop_bit_eq_div
        unat_div_distrib)
  have b: "unat (ucast (drop_bit 16 w) :: byte) = unat w div 65536 mod 256"
    by (simp add: unsigned_ucast_eq take_bit_eq_mod unat_drop_bit_eq drop_bit_eq_div
        unat_div_distrib)
  have c: "unat (ucast (drop_bit 8 w) :: byte) = unat w div 256 mod 256"
    by (simp add: unsigned_ucast_eq take_bit_eq_mod unat_drop_bit_eq drop_bit_eq_div
        unat_div_distrib)
  have d: "unat (ucast w :: byte) = unat w mod 256"
    by (simp add: unsigned_ucast_eq take_bit_eq_mod)
  have "from_bytes (be32 w) =
          ((unat (ucast (drop_bit 24 w) :: byte) * 256 + unat (ucast (drop_bit 16 w) :: byte)) * 256
             + unat (ucast (drop_bit 8 w) :: byte)) * 256 + unat (ucast w :: byte)"
    unfolding from_bytes_def be32_def by (simp only: foldl.simps mult_zero_left add_0_left)
  also have "\<dots> = unat w"
    unfolding a b c d by (rule base256_digits [OF lt])
  finally show ?thesis .
qed

lemma be32_magic: "be32 0xde0ec0e1 = magic"
  by (simp add: be32_def magic_def)

lemma length_be32: "length (be32 w) = 4"
  by (simp add: be32_def)

text \<open>
  When the whole payload is the next run on the socket, the inner loop collects exactly
  that run, in pieces of at most 2048 bytes.
\<close>

lemma recv_payload_whole:
  "c \<noteq> [] \<Longrightarrow>
     \<exists>ps'. recv_payload (length c) ps (Bytes c # rest) = Inr (ps', rest) \<and>
           concat ps' = concat ps @ c"
proof (induction "length c" arbitrary: c ps rule: less_induct)
  case less
  show ?case
  proof (cases "length c \<le> 2048")
    case True
    with less.prems show ?thesis
      by (subst recv_payload.simps) (simp add: recv_payload.simps [of 0])
  next
    case False
    then have d: "drop 2048 c \<noteq> []" "length (drop 2048 c) < length c" by auto
    from less.hyps [OF d(2) d(1), of "ps @ [take 2048 c]"]
    obtain ps' where
      r: "recv_payload (length (drop 2048 c)) (ps @ [take 2048 c])
            (Bytes (drop 2048 c) # rest) = Inr (ps', rest)"
      and cc: "concat ps' = concat (ps @ [take 2048 c]) @ drop 2048 c" by blast
    from False less.prems r cc show ?thesis
      by (subst recv_payload.simps) (simp add: min_def)
  qed
qed

text \<open>
  Claim C3. Framing round-trip: for a byte string \<open>b\<close> of at most \<open>2 ^ 20\<close> bytes, \<open>send\<close>
  over an empty in-memory pipe emits one segment, the magic, version 0, the length of \<open>b\<close>,
  the last-segment flag 1 and then \<open>b\<close> itself; \<open>read\<close> on the other end returns exactly
  \<open>b\<close> and leaves the pipe empty.
\<close>

theorem send_read_roundtrip:
  "length b \<le> 2 ^ 20 \<Longrightarrow>
     send b [] = [Bytes (magic @ [0] @ be32 (of_nat (length b)) @ [1] @ b)] \<and>
     read (send b []) [] = Inr (b, [])"
proof -
  assume len: "length b \<le> 2 ^ 20"
  define h where "h = magic @ [0] @ be32 (of_nat (length b)) @ [1::byte]"
  have sb: "send b [] = [Bytes (h @ b)]"
    by (simp add: send_def header_bytes_def be32_magic h_def)
  have lh: "length h = 10" by (simp add: h_def magic_def length_be32)
  have t4: "take 4 h = magic" by (simp add: h_def magic_def)
  have ver: "from_bytes (take 1 (drop 4 h)) = 0" by (simp add: h_def magic_def from_bytes_def)
  have "unat (of_nat (length b) :: 32 word) = length b"
    using len by (simp add: unat_of_nat take_bit_nat_eq_self)
  then have sz: "from_bytes (take 4 (drop 5 h)) = length b"
    by (simp add: h_def magic_def length_be32 from_bytes_be32)
  have d9: "drop 9 h = [1]" by (simp add: h_def magic_def length_be32)
  have rv: "recv 10 [Bytes (h @ b)] = Inr (h, if b = [] then [] else [Bytes b])"
    using lh by auto
  have "read [Bytes (h @ b)] [] = Inr (b, [])"
  proof (cases "b = []")
    case True
    then show ?thesis
      using rv t4 ver sz by (subst read.simps) simp
  next
    case False
    from recv_payload_whole [OF False, of "[]" "[]"]
    obtain ps' where "recv_payload (length b) [] [Bytes b] = Inr (ps', [])" "concat ps' = b"
      by auto
    with False show ?thesis
      using rv t4 ver sz d9 by (subst read.simps) simp
  qed
  with sb show ?thesis by (simp add: h_def)
qed

theorem send_read_roundtrip_witness:
  "length [0x61, 0x62, 0x63 :: byte] \<le> 2 ^ 20 \<and>
   read (send [0x61, 0x62, 0x63] []) [] = Inr ([0x61, 0x62, 0x63], [])"
  using send_read_roundtrip [of "[0x61, 0x62, 0x63]"]
  by (simp add: send_def header_bytes_def be32_def magic_def)

text \<open>
  Claim C1. A stream carries two well-formed segments, the first with payload \<open>A\<close> and
  last-segment flag byte 0, the second with payload \<open>B\<close> and flag byte 1. The claim asks for
  the concatenation \<open>AB\<close>. \<open>read\<close> returns after the first segment with \<open>A\<close> alone and leaves
  the second segment unread on the socket: \<open>bool(data[9:])\<close> is true for every complete
  header, whatever the flag byte holds.
\<close>

theorem read_stops_at_unset_last_flag:
  "read [Bytes (segment [0x41] 0 @ segment [0x42] 1)] [] =
     Inr ([0x41], [Bytes (segment [0x42] 1)])"
  by (subst read.simps)
    (simp add: recv_payload.simps segment_def header_bytes_def be32_def magic_def from_bytes_def)

text \<open>
  Claim C7. A stream that yields zero bytes before any header byte: the peer has closed
  (\<open>recv\<close> returns the empty string), or nothing arrives within the timeout. The claim asks
  for an empty buffer. \<open>read\<close> compares the empty string with the magic and raises the
  protocol mismatch error in the first case, and lets \<open>socket.timeout\<close> through in the
  second.
\<close>

theorem read_of_silent_stream_raises:
  "read [] [] = Inl ProtocolMismatch \<and> read [TimedOut] [] = Inl SocketTimeout"
  by (simp add: read.simps [of "[]"] read.simps [of "[TimedOut]"] magic_def)

section \<open>Properties of the store\<close>

lemma own_address_key_rows_removed:
  "own_address_key_rows (remove_own_address st address) address = []"
  by (auto simp: own_address_key_rows_def remove_own_address_def concat_eq_Nil_conv)

lemma get_own_address_nacl_key_removed:
  "get_own_address_nacl_key (remove_own_address st address) address = (None, None)"
  by (simp add: get_own_address_nacl_key_def own_address_key_rows_removed)

lemma own_address_key_rows_nacl_key_filter:
  "own_address st' = own_address st \<Longrightarrow> nacl_key st' = filter P (nacl_key st) \<Longrightarrow>
     own_address_key_rows st address = [] \<Longrightarrow> own_address_key_rows st' address = []"
  by (auto simp: own_address_key_rows_def concat_eq_Nil_conv)

lemma own_key_of_address:
  assumes "get_own_address_nacl_key st address = (Some k, priv)"
  shows "list_ex (\<lambda>x. k_id x = k \<and> is_own x) (nacl_key st)"
proof -
  from assms obtain r rs where rows: "own_address_key_rows st address = r # rs"
    and k: "k = k_id (fst (last (r # rs)))"
    by (auto simp: get_own_address_nacl_key_def split: list.splits)
  have "last (r # rs) \<in> set (own_address_key_rows st address)"
    unfolding rows by (rule last_in_set) simp
  then have "fst (last (r # rs)) \<in> set (nacl_key st) \<and> is_own (fst (last (r # rs)))"
    by (auto simp: own_address_key_rows_def)
  with k show ?thesis by (auto simp: list_ex_iff)
qed

text \<open>
  Claim C4, as amended. Let \<open>mid\<close> be the id of a stored message \<open>msg\<close> whose
  \<open>header_address\<close> is bound to the own key \<open>k\<close>. Then \<open>clean_out_received_message\<close>
  returns; afterwards the own address is gone, so \<open>get_own_address_nacl_key\<close> of the
  message's address is \<open>(None, None)\<close>; the own-key record \<open>k\<close> is gone exactly when no
  other own address and no contact (foreign) address references \<open>k\<close>; nothing else changes;
  and a second \<open>clean_out_received_message\<close> on the same id returns with the store as it is.
\<close>

theorem clean_out_received_message_effect:
  assumes msg: "read_message st mid = Some msg"
    and key: "get_own_address_nacl_key st (header_address msg) = (Some k, priv)"
  shows "\<exists>st'. clean_out_received_message st mid = Inr st' \<and>
           get_own_address_nacl_key st' (header_address msg) = (None, None) \<and>
           own_address st' = filter (\<lambda>a. Some (oa_id a) \<noteq> header_address msg) (own_address st) \<and>
           (list_ex (\<lambda>x. k_id x = k \<and> is_own x) (nacl_key st') \<longleftrightarrow>
              list_ex (\<lambda>a. oa_key_id a = Some k \<and> Some (oa_id a) \<noteq> header_address msg)
                (own_address st) \<or>
              list_ex (\<lambda>a. fa_key_id a = Some k) (foreign_address st)) \<and>
           filter (\<lambda>x. \<not> (k_id x = k \<and> is_own x)) (nacl_key st') =
             filter (\<lambda>x. \<not> (k_id x = k \<and> is_own x)) (nacl_key st) \<and>
           foreign_address st' = foreign_address st \<and>
           message st' = message st \<and>
           clean_out_received_message st' mid = Inr st'"
proof -
  define st1 where "st1 = remove_own_address st (header_address msg)"
  have own: "list_ex (\<lambda>x. k_id x = k \<and> is_own x) (nacl_key st)"
    using key by (rule own_key_of_address)
  have st1_fields: "nacl_key st1 = nacl_key st" "foreign_address st1 = foreign_address st"
    "message st1 = message st"
    "own_address st1 = filter (\<lambda>a. Some (oa_id a) \<noteq> header_address msg) (own_address st)"
    by (simp_all add: st1_def remove_own_address_def)
  have ref: "key_referenced st1 k \<longleftrightarrow>
      list_ex (\<lambda>a. oa_key_id a = Some k \<and> Some (oa_id a) \<noteq> header_address msg) (own_address st) \<or>
      list_ex (\<lambda>a. fa_key_id a = Some k) (foreign_address st)"
    by (auto simp: key_referenced_def st1_fields list_ex_iff)
  have gone1: "get_own_address_nacl_key st1 (header_address msg) = (None, None)"
    unfolding st1_def by (rule get_own_address_nacl_key_removed)
  have msg1: "read_message st1 mid = Some msg"
    using msg by (simp add: read_message_def st1_fields)
  show ?thesis
  proof (cases "key_referenced st1 k")
    case True
    then have rm: "remove_own_nacl_key st1 k = Inl IntegrityError"
      using own by (simp add: remove_own_nacl_key_def st1_fields)
    have res: "clean_out_received_message st mid = Inr st1"
      using msg key rm by (simp add: clean_out_received_message_def st1_def)
    have again: "clean_out_received_message st1 mid = Inr st1"
      using msg1 gone1 by (simp add: clean_out_received_message_def)
    show ?thesis
      using res again gone1 True ref own by (intro exI [of _ st1]) (simp add: st1_fields)
  next
    case False
    define st2 where
      "st2 = st1\<lparr>nacl_key := filter (\<lambda>x. \<not> (k_id x = k \<and> is_own x)) (nacl_key st1)\<rparr>"
    have rm: "remove_own_nacl_key st1 k = Inr st2"
      using False by (simp add: remove_own_nacl_key_def st2_def)
    have st2_fields: "nacl_key st2 = filter (\<lambda>x. \<not> (k_id x = k \<and> is_own x)) (nacl_key st)"
      "foreign_address st2 = foreign_address st" "message st2 = message st"
      "own_address st2 = own_address st1"
      by (simp_all add: st2_def st1_fields)
    have res: "clean_out_received_message st mid = Inr st2"
      using msg key rm by (simp add: clean_out_received_message_def st1_def)
    have "own_address_key_rows st1 (header_address msg) = []"
      unfolding st1_def by (rule own_address_key_rows_removed)
    then have "own_address_key_rows st2 (header_address msg) = []"
      by (rule own_address_key_rows_nacl_key_filter [rotated 2])
        (simp_all add: st2_def)
    then have gone2: "get_own_address_nacl_key st2 (header_address msg) = (None, None)"
      by (simp add: get_own_address_nacl_key_def)
    have msg2: "read_message st2 mid = Some msg"
      using msg by (simp add: read_message_def st2_fields)
    have again: "clean_out_received_message st2 mid = Inr st2"
      using msg2 gone2 by (simp add: clean_out_received_message_def)
    have nokey: "\<not> list_ex (\<lambda>x. k_id x = k \<and> is_own x) (nacl_key st2)"
      by (auto simp: st2_fields list_ex_iff)
    show ?thesis
      using res again gone2 False ref nokey
      by (intro exI [of _ st2]) (simp add: st2_fields st1_fields)
  qed
qed

theorem clean_out_received_message_effect_witness:
  "read_message store_s6 ''msg-1'' = Some (hd (message store_s6)) \<and>
   get_own_address_nacl_key store_s6 (header_address (hd (message store_s6))) =
     (Some ''key-1'', Some ''a-private-key'') \<and>
   clean_out_received_message store_s6 ''msg-1'' =
     Inr (store_s6\<lparr>own_address := tl (own_address store_s6)\<rparr>) \<and>
   list_ex (\<lambda>x. k_id x = ''key-1'' \<and> is_own x)
     (nacl_key (store_s6\<lparr>own_address := tl (own_address store_s6)\<rparr>)) \<and>
   clean_out_received_message (store_s6\<lparr>own_address := tl (own_address store_s6)\<rparr>) ''msg-1'' =
     Inr (store_s6\<lparr>own_address := tl (own_address store_s6)\<rparr>)"
  using clean_out_received_message_effect
    [of store_s6 "''msg-1''" "hd (message store_s6)" "''key-1''" "Some ''a-private-key''"]
  by (simp add: store_s6_def read_message_def get_own_address_nacl_key_def
      own_address_key_rows_def clean_out_received_message_def remove_own_address_def
      remove_own_nacl_key_def key_referenced_def)

text \<open>
  Claim C4 as stated fails where a contact address references the own key: the message's
  address is bound to the own key \<open>key-1\<close>, after the clean-out no own address references
  \<open>key-1\<close> any more, and yet the key record is still there, because the contact address's
  foreign-key reference makes the deletion fail and the failure is swallowed.
\<close>

theorem clean_out_keeps_key_of_contact_address:
  "read_message store_shared_key ''msg-1'' = Some (hd (message store_shared_key)) \<and>
   get_own_address_nacl_key store_shared_key (header_address (hd (message store_shared_key))) =
     (Some ''key-1'', Some ''a-private-key'') \<and>
   clean_out_received_message store_shared_key ''msg-1'' =
     Inr (store_shared_key\<lparr>own_address := []\<rparr>) \<and>
   \<not> list_ex (\<lambda>a. oa_key_id a = Some ''key-1'')
       (own_address (store_shared_key\<lparr>own_address := []\<rparr>)) \<and>
   list_ex (\<lambda>x. k_id x = ''key-1'' \<and> is_own x)
     (nacl_key (store_shared_key\<lparr>own_address := []\<rparr>))"
  by (simp add: store_shared_key_def read_message_def get_own_address_nacl_key_def
      own_address_key_rows_def clean_out_received_message_def remove_own_address_def
      remove_own_nacl_key_def key_referenced_def)

text \<open>
  Claim C9. The store holds two own keys: \<open>key-1\<close> is referenced by two own addresses,
  \<open>key-2\<close> by none. The claim asks for a key of minimal count, which is \<open>key-2\<close>.
  \<open>get_least_used_own_nacl_key\<close> returns \<open>key-1\<close>: without \<open>GROUP BY\<close> the query counts all
  addresses of all own keys in one group and reports the columns of its first row.
\<close>

theorem get_least_used_own_nacl_key_not_least:
  "get_least_used_own_nacl_key store_two_keys = Some (Some ''key-1'', Some ''public-1'') \<and>
   least_used_cursor store_two_keys = [(Some ''key-1'', Some ''public-1'', 2)] \<and>
   key_usage store_two_keys ''key-1'' = 2 \<and>
   key_usage store_two_keys ''key-2'' = 0 \<and>
   list_ex (\<lambda>x. k_id x = ''key-2'' \<and> is_own x) (nacl_key store_two_keys)"
  by (simp add: store_two_keys_def get_least_used_own_nacl_key_def least_used_cursor_def
      own_key_join_def key_usage_def)

section \<open>Properties of the port search\<close>

declare rendezvous_port_search.simps [simp del] create_socket_server_loop.simps [simp del]

text \<open>
  Claim C8. The base port is 27273 and, of the ports from the base on, only \<open>base + 2\<close> is
  free. The claim asks for the consecutive candidates \<open>base\<close>, \<open>base + 1\<close>, \<open>base + 2\<close> and a
  bind to \<open>base + 2\<close>. The rendezvous server adds \<open>tries\<close> to the port it tried last, so it
  tries the offsets 0, 1, 3, 6, 10, 15, 21, 28, 36 and 45, never tries \<open>base + 2\<close> and
  reports failure. The sibling search of the exchange server, \<open>_create_socket_server\<close>,
  tries \<open>base + tries\<close> and binds to \<open>base + 2\<close>.
\<close>

theorem rendezvous_port_search_skips_free_port:
  "rendezvous_server_start (\<lambda>p. p = 27275) DEFAULT_TCP_RENDEZVOUS_SERVER_PORT =
     (27318, False, [27273, 27274, 27276, 27279, 27283, 27288, 27294, 27301, 27309, 27318]) \<and>
   create_socket_server (\<lambda>p. p = 27275) DEFAULT_TCP_RENDEZVOUS_SERVER_PORT 10 =
     (Inr 27275, [27273, 27274, 27275])"
  by code_simp

end
